theory Spec2Isabelle
  imports Complex_Main "HOL-Library.Char_ord" "HOL-Library.List_Lexorder" "HOL-Library.Word"
begin

section \<open>Change detection of the MCA insights engine (process\_data.py, Task B and Task E)\<close>

text \<open>
  The development embeds \<^verbatim>\<open>find_changes\<close> of \<^verbatim>\<open>src/process_data.py\<close> (lines 68-128) and the
  summary counts of Task E (lines 160-167). The function works on pandas data frames; the
  parts of pandas it calls are modelled below, each next to the call it stands for.
\<close>

subsection \<open>Cell values\<close>

text \<open>
  A cell of a frame read by \<^verbatim>\<open>pd.read_csv\<close> is a Python string, a numpy \<^verbatim>\<open>int64\<close>, a
  finite numpy \<^verbatim>\<open>float64\<close>, or the missing value NaN. An \<^verbatim>\<open>int64\<close> is a 64-bit word read
  as a signed number (\<^term>\<open>sint\<close>); a finite \<^verbatim>\<open>float64\<close> is given by the rational it
  denotes (a value that \<^verbatim>\<open>float64\<close> holds exactly; the parser has already rounded the text
  of the file), so that \<^verbatim>\<open>==\<close> on two floats is equality of values. The cells of one column of
  one frame are all of one kind (a numeric column with a missing or fractional cell is
  \<^verbatim>\<open>float64\<close>), but the same column can be \<^verbatim>\<open>int64\<close> in one file and \<^verbatim>\<open>float64\<close> in
  the other. Columns of type \<^verbatim>\<open>bool\<close> or \<^verbatim>\<open>uint64\<close> and infinite floats are not modelled.
  \<^verbatim>\<open>df.loc[cin, col]\<close> yields one cell when the label \<^verbatim>\<open>cin\<close> occurs once in the index,
  and a Series of the cells of all its rows when it occurs several times.
\<close>

datatype val = Str string | Int64 "64 word" | Float64 rat | NaN

datatype cell = Scalar val | Series "val list"

text \<open>
  The exceptions that occur. \<^verbatim>\<open>EmptyDataError\<close> and \<^verbatim>\<open>ParserError\<close> are the ones
  \<^verbatim>\<open>pd.read_csv\<close> raises on a file that exists and cannot be parsed; both are subclasses of
  ValueError and none of KeyError or FileNotFoundError.
\<close>

datatype error =
  FileNotFoundError | PermissionError | EmptyDataError | ParserError | KeyError | ValueError

text \<open>
  The conversion of an \<^verbatim>\<open>int64\<close> to \<^verbatim>\<open>float64\<close>: the integer is rounded to 53
  significant bits, to the nearest value and to the even one of two nearest values. An
  \<^verbatim>\<open>int64\<close> is below 2^63 in magnitude, so the result is finite, and it is an integer.
\<close>

function bit_width :: "int \<Rightarrow> nat" where
  "bit_width n = (if n \<le> 0 then 0 else Suc (bit_width (n div 2)))"
  by pat_completeness auto
termination
  by (relation "measure nat") auto

declare bit_width.simps [simp del]

definition round_half_even :: "int \<Rightarrow> nat \<Rightarrow> int" where
  "round_half_even n e =
     (let q = n div 2 ^ e; r = n mod 2 ^ e
      in if 2 ^ e < 2 * r \<or> (2 * r = 2 ^ e \<and> odd q) then q + 1 else q)"

definition float64_of_int :: "int \<Rightarrow> int" where
  "float64_of_int i =
     (let n = \<bar>i\<bar>; e = bit_width n - 53
      in sgn i * (round_half_even n e * 2 ^ e))"

text \<open>
  \<^verbatim>\<open>a != b\<close> on two scalars. NaN is unequal to everything, itself included. numpy compares
  an \<^verbatim>\<open>int64\<close> with a \<^verbatim>\<open>float64\<close> as two \<^verbatim>\<open>float64\<close>, converting the integer first. Two
  cells of the same kind are compared exactly, and a string is unequal to every number.
\<close>

fun py_ne :: "val \<Rightarrow> val \<Rightarrow> bool" where
  "py_ne NaN b = True"
| "py_ne a NaN = True"
| "py_ne (Int64 i) (Float64 y) = (of_int (float64_of_int (sint i)) \<noteq> y)"
| "py_ne (Float64 x) (Int64 j) = (x \<noteq> of_int (float64_of_int (sint j)))"
| "py_ne a b = (a \<noteq> b)"

text \<open>\<^verbatim>\<open>pd.isna\<close> on a scalar.\<close>

fun isna :: "val \<Rightarrow> bool" where
  "isna NaN = True"
| "isna v = False"

subsection \<open>Frames\<close>

text \<open>
  The result of \<^verbatim>\<open>pd.read_csv(path, dtype={'CIN': str})\<close> on a file that parses: the labels
  of the file's columns and its rows. A row is the text of its CIN cell (read as
  \<^verbatim>\<open>str\<close>; it is used only when the file has a column CIN) and the cells of the other
  columns in file order.
\<close>

record frame =
  columns :: "string list"
  rows :: "(string \<times> val list) list"

text \<open>
  What is at a path: nothing, a file that cannot be opened, an empty file, a file whose
  rows do not parse, or a table. \<^verbatim>\<open>pd.read_csv\<close> raises FileNotFoundError,
  PermissionError, EmptyDataError and ParserError on the first four.
\<close>

datatype content = Unreadable | Empty | Malformed | Table frame

type_synonym files = "string \<Rightarrow> content option"

definition read_csv :: "files \<Rightarrow> string \<Rightarrow> error + frame" where
  "read_csv fs path =
     (case fs path of
        None \<Rightarrow> Inl FileNotFoundError
      | Some Unreadable \<Rightarrow> Inl PermissionError
      | Some Empty \<Rightarrow> Inl EmptyDataError
      | Some Malformed \<Rightarrow> Inl ParserError
      | Some (Table f) \<Rightarrow> Inr f)"

text \<open>
  \<^verbatim>\<open>.set_index('CIN')\<close>: KeyError when no column has that label; otherwise the column leaves
  the data columns and becomes the index. Duplicate labels are kept
  (\<^verbatim>\<open>verify_integrity\<close> is off by default).
\<close>

record indexed =
  icolumns :: "string list"
  irows :: "(string \<times> val list) list"

definition index :: "indexed \<Rightarrow> string list" where
  "index df = map fst (irows df)"

definition set_index :: "frame \<Rightarrow> error + indexed" where
  "set_index f =
     (if ''CIN'' \<in> set (columns f)
      then Inr \<lparr>icolumns = filter (\<lambda>c. c \<noteq> ''CIN'') (columns f), irows = rows f\<rparr>
      else Inl KeyError)"

text \<open>The cell of a row in a column; a row shorter than the header is padded with NaN.\<close>

definition cell_of :: "string list \<Rightarrow> val list \<Rightarrow> string \<Rightarrow> val" where
  "cell_of cols vs col = (case map_of (zip cols vs) col of Some v \<Rightarrow> v | None \<Rightarrow> NaN)"

text \<open>
  \<^verbatim>\<open>df.loc[cin, col]\<close>: KeyError when the column or the row label is absent, the cell when
  the label has one row, the Series of the cells when it has several.
\<close>

definition loc :: "indexed \<Rightarrow> string \<Rightarrow> string \<Rightarrow> error + cell" where
  "loc df cin col =
     (if col \<notin> set (icolumns df) then Inl KeyError
      else case [cell_of (icolumns df) vs col. (k, vs) \<leftarrow> irows df, k = cin] of
             [] \<Rightarrow> Inl KeyError
           | [v] \<Rightarrow> Inr (Scalar v)
           | vs \<Rightarrow> Inr (Series vs))"

subsection \<open>Set operations on indexes\<close>

text \<open>\<^verbatim>\<open>Index.unique()\<close>: the distinct labels in order of first occurrence.\<close>

fun unique :: "'a list \<Rightarrow> 'a list" where
  "unique [] = []"
| "unique (x # xs) = x # unique (filter (\<lambda>y. y \<noteq> x) xs)"

text \<open>
  \<^verbatim>\<open>self.difference(other)\<close> with the default \<^verbatim>\<open>sort=None\<close>: the distinct labels of
  \<^verbatim>\<open>self\<close> that are not in \<^verbatim>\<open>other\<close>, sorted. pandas leaves the result unsorted when
  \<^verbatim>\<open>other\<close> is empty: \<^verbatim>\<open>Index.difference\<close> of pandas 2 returns \<^verbatim>\<open>self.unique()\<close> there,
  with the note "we do not (yet) sort even if sort=None". Labels are strings, which Python
  and the order on \<^typ>\<open>string\<close> both compare lexicographically, character by character.

  \<^verbatim>\<open>self.intersection(other)\<close> with the default \<^verbatim>\<open>sort=False\<close>: the distinct labels of
  \<^verbatim>\<open>self\<close> that are in \<^verbatim>\<open>other\<close>, in the order they have in \<^verbatim>\<open>self\<close>; the result is not
  sorted.
\<close>

definition difference :: "string list \<Rightarrow> string list \<Rightarrow> string list" where
  "difference self other =
     (if other = [] then unique self
      else sort (unique (filter (\<lambda>k. k \<notin> set other) self)))"

definition intersection :: "string list \<Rightarrow> string list \<Rightarrow> string list" where
  "intersection self other = unique (filter (\<lambda>k. k \<in> set other) self)"

subsection \<open>find\_changes\<close>

text \<open>A change record is a Python dict: its keys in insertion order, each with its value.\<close>

type_synonym change = "(string \<times> cell) list"

definition change_dict :: "string \<Rightarrow> string \<Rightarrow> string \<Rightarrow> cell \<Rightarrow> cell \<Rightarrow> string \<Rightarrow> change" where
  "change_dict cin change_type field_changed old_value new_value log_date =
     [(''CIN'', Scalar (Str cin)),
      (''Change_Type'', Scalar (Str change_type)),
      (''Field_Changed'', Scalar (Str field_changed)),
      (''Old_Value'', old_value),
      (''New_Value'', new_value),
      (''Date'', Scalar (Str log_date))]"

text \<open>Lines 86-94: the loop over \<^verbatim>\<open>new_cins\<close>, appending to \<^verbatim>\<open>changes_list\<close>.\<close>

fun new_loop :: "indexed \<Rightarrow> string \<Rightarrow> string list \<Rightarrow> change list \<Rightarrow> error + change list" where
  "new_loop df_new log_date [] changes_list = Inr changes_list"
| "new_loop df_new log_date (cin # cins) changes_list =
     (case loc df_new cin ''CompanyName'' of
        Inl e \<Rightarrow> Inl e
      | Inr name \<Rightarrow>
          new_loop df_new log_date cins
            (changes_list @
              [change_dict cin ''New Incorporation'' ''N/A'' (Scalar (Str ''N/A'')) name log_date]))"

text \<open>Lines 98-106: the loop over \<^verbatim>\<open>gone_cins\<close>.\<close>

fun gone_loop :: "indexed \<Rightarrow> string \<Rightarrow> string list \<Rightarrow> change list \<Rightarrow> error + change list" where
  "gone_loop df_old log_date [] changes_list = Inr changes_list"
| "gone_loop df_old log_date (cin # cins) changes_list =
     (case loc df_old cin ''CompanyName'' of
        Inl e \<Rightarrow> Inl e
      | Inr name \<Rightarrow>
          gone_loop df_old log_date cins
            (changes_list @
              [change_dict cin ''Deregistered'' ''N/A'' name (Scalar (Str ''N/A'')) log_date]))"

text \<open>
  Line 118, the test \<^verbatim>\<open>old_val != new_val and not (pd.isna(old_val) and pd.isna(new_val))\<close>.
  When either operand is a Series, \<^verbatim>\<open>!=\<close> gives a Series (or raises ValueError on
  operands of different length) and taking its truth value for \<^verbatim>\<open>and\<close> raises ValueError.
\<close>

fun is_changed :: "cell \<Rightarrow> cell \<Rightarrow> error + bool" where
  "is_changed (Scalar old_val) (Scalar new_val) =
     Inr (py_ne old_val new_val \<and> \<not> (isna old_val \<and> isna new_val))"
| "is_changed old_val new_val = Inl ValueError"

definition columns_to_check :: "string list" where
  "columns_to_check = [''CompanyStatus'', ''AuthorizedCapital'', ''PaidupCapital'']"

text \<open>Lines 114-126: the inner loop over the watched columns of one common CIN.\<close>

fun col_loop ::
  "indexed \<Rightarrow> indexed \<Rightarrow> string \<Rightarrow> string \<Rightarrow> string list \<Rightarrow> change list \<Rightarrow> error + change list"
where
  "col_loop df_old df_new log_date cin [] changes_list = Inr changes_list"
| "col_loop df_old df_new log_date cin (col # cols) changes_list =
     (case loc df_old cin col of
        Inl e \<Rightarrow> Inl e
      | Inr old_val \<Rightarrow>
         (case loc df_new cin col of
            Inl e \<Rightarrow> Inl e
          | Inr new_val \<Rightarrow>
             (case is_changed old_val new_val of
                Inl e \<Rightarrow> Inl e
              | Inr b \<Rightarrow>
                  col_loop df_old df_new log_date cin cols
                    (if b
                     then changes_list @
                            [change_dict cin ''Field Update'' col old_val new_val log_date]
                     else changes_list))))"

text \<open>Lines 113-126: the outer loop over \<^verbatim>\<open>common_cins\<close>.\<close>

fun common_loop ::
  "indexed \<Rightarrow> indexed \<Rightarrow> string \<Rightarrow> string list \<Rightarrow> change list \<Rightarrow> error + change list"
where
  "common_loop df_old df_new log_date [] changes_list = Inr changes_list"
| "common_loop df_old df_new log_date (cin # cins) changes_list =
     (case col_loop df_old df_new log_date cin columns_to_check changes_list of
        Inl e \<Rightarrow> Inl e
      | Inr changes_list' \<Rightarrow> common_loop df_old df_new log_date cins changes_list')"

text \<open>Lines 72-73: both files are read and indexed, the old one first.\<close>

definition load_frames :: "files \<Rightarrow> string \<Rightarrow> string \<Rightarrow> error + indexed \<times> indexed" where
  "load_frames fs old_file_path new_file_path =
     (case read_csv fs old_file_path of
        Inl e \<Rightarrow> Inl e
      | Inr f_old \<Rightarrow>
         (case set_index f_old of
            Inl e \<Rightarrow> Inl e
          | Inr df_old \<Rightarrow>
             (case read_csv fs new_file_path of
                Inl e \<Rightarrow> Inl e
              | Inr f_new \<Rightarrow>
                 (case set_index f_new of
                    Inl e \<Rightarrow> Inl e
                  | Inr df_new \<Rightarrow> Inr (df_old, df_new)))))"

text \<open>Lines 82-128: the body after the \<^verbatim>\<open>try\<close> block.\<close>

definition diff_frames :: "indexed \<Rightarrow> indexed \<Rightarrow> string \<Rightarrow> error + change list" where
  "diff_frames df_old df_new log_date =
     (let new_cins = difference (index df_new) (index df_old) in
      case new_loop df_new log_date new_cins [] of
        Inl e \<Rightarrow> Inl e
      | Inr changes_list1 \<Rightarrow>
         (let gone_cins = difference (index df_old) (index df_new) in
          case gone_loop df_old log_date gone_cins changes_list1 of
            Inl e \<Rightarrow> Inl e
          | Inr changes_list2 \<Rightarrow>
             (let common_cins = intersection (index df_old) (index df_new) in
              common_loop df_old df_new log_date common_cins changes_list2)))"

text \<open>
  The whole function. The two \<^verbatim>\<open>except\<close> clauses of the \<^verbatim>\<open>try\<close> block catch
  FileNotFoundError and KeyError and return the empty list; every other exception of the
  block, and every exception raised after the block, reaches the caller.
\<close>

definition find_changes :: "files \<Rightarrow> string \<Rightarrow> string \<Rightarrow> string \<Rightarrow> error + change list" where
  "find_changes fs old_file_path new_file_path log_date =
     (case load_frames fs old_file_path new_file_path of
        Inl FileNotFoundError \<Rightarrow> Inr []
      | Inl KeyError \<Rightarrow> Inr []
      | Inl e \<Rightarrow> Inl e
      | Inr (df_old, df_new) \<Rightarrow> diff_frames df_old df_new log_date)"

subsection \<open>Task E: the summary counts\<close>

text \<open>
  Lines 162-167 read the saved change log back into a frame and count its rows by
  \<^verbatim>\<open>Change_Type\<close>. A frame built from a list of dicts has a column for every key that
  occurs in some dict (a dict without the key has NaN there), so the frame of the empty
  log has no columns, and \<^verbatim>\<open>log_df_summary['Change_Type']\<close> raises KeyError on it. The
  handler of line 186 catches the exception, prints it and writes no summary.
\<close>

definition frame_column :: "change list \<Rightarrow> string \<Rightarrow> error + cell list" where
  "frame_column log_df col =
     (if list_ex (\<lambda>r. col \<in> set (map fst r)) log_df
      then Inr (map (\<lambda>r. case map_of r col of Some c \<Rightarrow> c | None \<Rightarrow> Scalar NaN) log_df)
      else Inl KeyError)"

text \<open>\<^verbatim>\<open>len(log_df_summary[log_df_summary['Change_Type'] == change_type])\<close>\<close>

definition count_type :: "change list \<Rightarrow> string \<Rightarrow> error + nat" where
  "count_type log_df change_type =
     (case frame_column log_df ''Change_Type'' of
        Inl e \<Rightarrow> Inl e
      | Inr cs \<Rightarrow> Inr (length (filter (\<lambda>c. c = Scalar (Str change_type)) cs)))"

definition summary_counts :: "change list \<Rightarrow> error + nat \<times> nat \<times> nat" where
  "summary_counts log_df =
     (case count_type log_df ''New Incorporation'' of
        Inl e \<Rightarrow> Inl e
      | Inr new_corps \<Rightarrow>
         (case count_type log_df ''Deregistered'' of
            Inl e \<Rightarrow> Inl e
          | Inr deregistered \<Rightarrow>
             (case count_type log_df ''Field Update'' of
                Inl e \<Rightarrow> Inl e
              | Inr updates \<Rightarrow> Inr (new_corps, deregistered, updates))))"

subsection \<open>Notions used to state the properties\<close>

text \<open>
  A snapshot in the sense of the specification (section 3): an indexed frame whose keys are
  unique and which has the name column and every watched column.
\<close>

definition snapshot :: "indexed \<Rightarrow> bool" where
  "snapshot df \<longleftrightarrow>
     distinct (index df) \<and> ''CompanyName'' \<in> set (icolumns df) \<and>
     set columns_to_check \<subseteq> set (icolumns df)"

text \<open>Reading a change record: its type, its key and its field.\<close>

definition has_type :: "string \<Rightarrow> change \<Rightarrow> bool" where
  "has_type ty r \<longleftrightarrow> map_of r ''Change_Type'' = Some (Scalar (Str ty))"

definition cin_of :: "change \<Rightarrow> cell option" where
  "cin_of r = map_of r ''CIN''"

definition field_of :: "change \<Rightarrow> cell option" where
  "field_of r = map_of r ''Field_Changed''"

text \<open>
  The records the three loops append when every lookup succeeds: for an added key, for a
  removed key, and for a pair of a common key and a watched column; and the outcome of the
  test of line 118 for such a pair.
\<close>

definition new_record :: "indexed \<Rightarrow> string \<Rightarrow> string \<Rightarrow> change" where
  "new_record df_new log_date cin =
     change_dict cin ''New Incorporation'' ''N/A'' (Scalar (Str ''N/A''))
       (projr (loc df_new cin ''CompanyName'')) log_date"

definition gone_record :: "indexed \<Rightarrow> string \<Rightarrow> string \<Rightarrow> change" where
  "gone_record df_old log_date cin =
     change_dict cin ''Deregistered'' ''N/A'' (projr (loc df_old cin ''CompanyName''))
       (Scalar (Str ''N/A'')) log_date"

definition update_record :: "indexed \<Rightarrow> indexed \<Rightarrow> string \<Rightarrow> string \<times> string \<Rightarrow> change" where
  "update_record df_old df_new log_date p =
     change_dict (fst p) ''Field Update'' (snd p) (projr (loc df_old (fst p) (snd p)))
       (projr (loc df_new (fst p) (snd p))) log_date"

definition differs :: "indexed \<Rightarrow> indexed \<Rightarrow> string \<times> string \<Rightarrow> bool" where
  "differs df_old df_new p =
     projr (is_changed (projr (loc df_old (fst p) (snd p))) (projr (loc df_new (fst p) (snd p))))"

definition scalars :: "indexed \<Rightarrow> indexed \<Rightarrow> string \<times> string \<Rightarrow> bool" where
  "scalars df_old df_new p \<longleftrightarrow>
     (\<exists>a b. loc df_old (fst p) (snd p) = Inr (Scalar a) \<and>
            loc df_new (fst p) (snd p) = Inr (Scalar b))"



text \<open>
  The pairs on which line 118 rounds: an \<^verbatim>\<open>int64\<close> cell that \<^verbatim>\<open>float64\<close> cannot hold
  exactly, against a \<^verbatim>\<open>float64\<close> cell.
\<close>

fun rounded :: "val \<Rightarrow> val \<Rightarrow> bool" where
  "rounded (Int64 i) (Float64 y) = (float64_of_int (sint i) \<noteq> sint i)"
| "rounded (Float64 x) (Int64 j) = (float64_of_int (sint j) \<noteq> sint j)"
| "rounded a b = False"

subsection \<open>Concrete inputs\<close>

text \<open>
  Scenario A of the specification: K1 and K2 on day 1, K2 and K3 on day 2, the status of K2
  changing from Active to Strike Off. The rows carry a name and the two capital fields as
  well, which the scenario does not list and which do not change.
\<close>

definition header :: "string list" where
  "header = [''CIN'', ''CompanyName'', ''CompanyStatus'', ''AuthorizedCapital'', ''PaidupCapital'']"

definition day1 :: frame where
  "day1 = \<lparr>columns = header,
     rows = [(''K1'', [Str ''Alpha Ltd'', Str ''Active'', Int64 100000, Float64 100000]),
             (''K2'', [Str ''Beta Ltd'', Str ''Active'', Int64 500000, NaN])]\<rparr>"

definition day2 :: frame where
  "day2 = \<lparr>columns = header,
     rows = [(''K2'', [Str ''Beta Ltd'', Str ''Strike Off'', Int64 500000, NaN]),
             (''K3'', [Str ''Gamma Ltd'', Str ''Active'', Int64 100000, Float64 100000])]\<rparr>"

definition scenario_A :: files where
  "scenario_A = [''day1.csv'' \<mapsto> Table day1, ''day2.csv'' \<mapsto> Table day2]"

definition log_A :: "change list" where
  "log_A =
     [change_dict ''K3'' ''New Incorporation'' ''N/A'' (Scalar (Str ''N/A''))
        (Scalar (Str ''Gamma Ltd'')) ''Day 2'',
      change_dict ''K1'' ''Deregistered'' ''N/A'' (Scalar (Str ''Alpha Ltd''))
        (Scalar (Str ''N/A'')) ''Day 2'',
      change_dict ''K2'' ''Field Update'' ''CompanyStatus'' (Scalar (Str ''Active''))
        (Scalar (Str ''Strike Off'')) ''Day 2'']"

text \<open>A file without the CIN column.\<close>

definition no_cin :: frame where
  "no_cin = \<lparr>columns = [''CompanyName'', ''CompanyStatus''],
     rows = [('''', [Str ''Alpha Ltd'', Str ''Active''])]\<rparr>"

definition scenario_no_cin :: files where
  "scenario_no_cin = [''day1.csv'' \<mapsto> Table day1, ''day2.csv'' \<mapsto> Table no_cin]"

text \<open>
  Two snapshots with unique keys whose files list K2 before K1; the status of both keys
  changes.
\<close>

definition day1_unsorted :: frame where
  "day1_unsorted = \<lparr>columns = header,
     rows = [(''K2'', [Str ''Beta Ltd'', Str ''Active'', Int64 500000, NaN]),
             (''K1'', [Str ''Alpha Ltd'', Str ''Active'', Int64 100000, Float64 100000])]\<rparr>"

definition day2_unsorted :: frame where
  "day2_unsorted = \<lparr>columns = header,
     rows = [(''K1'', [Str ''Alpha Ltd'', Str ''Strike Off'', Int64 100000, Float64 100000]),
             (''K2'', [Str ''Beta Ltd'', Str ''Strike Off'', Int64 500000, NaN])]\<rparr>"

definition scenario_unsorted :: files where
  "scenario_unsorted = [''day1.csv'' \<mapsto> Table day1_unsorted, ''day2.csv'' \<mapsto> Table day2_unsorted]"

text \<open>
  Files with a duplicate key: K1 occurs in two rows. In the first file system the
  duplicated key is in the new file only, in the second it is in both files.
\<close>

definition single_K0 :: frame where
  "single_K0 = \<lparr>columns = header,
     rows = [(''K0'', [Str ''Zero Ltd'', Str ''Active'', Int64 100000, Int64 100000])]\<rparr>"

definition twice_K1 :: frame where
  "twice_K1 = \<lparr>columns = header,
     rows = [(''K1'', [Str ''Alpha Ltd'', Str ''Active'', Int64 100000, Int64 100000]),
             (''K1'', [Str ''Alpha Two Ltd'', Str ''Active'', Int64 200000, Int64 200000])]\<rparr>"

definition scenario_dup_added :: files where
  "scenario_dup_added = [''day1.csv'' \<mapsto> Table single_K0, ''day2.csv'' \<mapsto> Table twice_K1]"

definition scenario_dup_common :: files where
  "scenario_dup_common = [''day1.csv'' \<mapsto> Table twice_K1, ''day2.csv'' \<mapsto> Table day1]"

text \<open>A new file without the name column, and one without the two capital columns.\<close>

definition day2_no_name :: frame where
  "day2_no_name = \<lparr>columns = [''CIN'', ''CompanyStatus'', ''AuthorizedCapital'', ''PaidupCapital''],
     rows = [(''K1'', [Str ''Active'', Int64 100000, Float64 100000]),
             (''K2'', [Str ''Strike Off'', Int64 500000, NaN])]\<rparr>"

definition scenario_no_name :: files where
  "scenario_no_name = [''day1.csv'' \<mapsto> Table day1, ''day2.csv'' \<mapsto> Table day2_no_name]"

definition scenario_no_name_added :: files where
  "scenario_no_name_added = [''day1.csv'' \<mapsto> Table single_K0, ''day2.csv'' \<mapsto> Table day2_no_name]"

definition day2_no_capital :: frame where
  "day2_no_capital = \<lparr>columns = [''CIN'', ''CompanyName'', ''CompanyStatus''],
     rows = [(''K1'', [Str ''Alpha Ltd'', Str ''Active'']),
             (''K2'', [Str ''Beta Ltd'', Str ''Strike Off''])]\<rparr>"

definition scenario_no_capital :: files where
  "scenario_no_capital = [''day1.csv'' \<mapsto> Table day1, ''day2.csv'' \<mapsto> Table day2_no_capital]"

text \<open>
  An old file that exists and is empty, next to a new file that does not exist.
\<close>

definition scenario_unparsed :: files where
  "scenario_unparsed = [''day1.csv'' \<mapsto> Empty]"

text \<open>
  Snapshots for the order of the records: the old file lists K5, K9, K2, K4 and the new
  file K2, K8, K5, K3. K5 changes its status and its paid-up capital, K2 its status and
  its authorized capital.
\<close>

definition day1_order :: frame where
  "day1_order = \<lparr>columns = header,
     rows = [(''K5'', [Str ''Epsilon Ltd'', Str ''Active'', Int64 100000, Int64 100000]),
             (''K9'', [Str ''Iota Ltd'', Str ''Active'', Int64 100000, Int64 100000]),
             (''K2'', [Str ''Beta Ltd'', Str ''Active'', Int64 500000, Int64 500000]),
             (''K4'', [Str ''Delta Ltd'', Str ''Active'', Int64 100000, Int64 100000])]\<rparr>"

definition day2_order :: frame where
  "day2_order = \<lparr>columns = header,
     rows = [(''K2'', [Str ''Beta Ltd'', Str ''Dormant'', Int64 600000, Int64 500000]),
             (''K8'', [Str ''Theta Ltd'', Str ''Active'', Int64 100000, Int64 100000]),
             (''K5'', [Str ''Epsilon Ltd'', Str ''Strike Off'', Int64 100000, Int64 250000]),
             (''K3'', [Str ''Gamma Ltd'', Str ''Active'', Int64 100000, Int64 100000])]\<rparr>"

definition scenario_order :: files where
  "scenario_order = [''day1.csv'' \<mapsto> Table day1_order, ''day2.csv'' \<mapsto> Table day2_order]"

text \<open>A file with the header and no row, as the old and as the new snapshot.\<close>

definition header_only :: frame where
  "header_only = \<lparr>columns = header, rows = []\<rparr>"

definition scenario_empty_old :: files where
  "scenario_empty_old =
     [''day1.csv'' \<mapsto> Table header_only, ''day2.csv'' \<mapsto> Table day1_unsorted]"

definition scenario_empty_new :: files where
  "scenario_empty_new =
     [''day1.csv'' \<mapsto> Table day1_unsorted, ''day2.csv'' \<mapsto> Table header_only]"




section \<open>Properties\<close>

subsection \<open>The pandas operations\<close>

lemma set_unique [simp]: "set (unique xs) = set xs"
  by (induction xs rule: unique.induct) auto

lemma distinct_unique [simp]: "distinct (unique xs)"
  by (induction xs rule: unique.induct) auto

lemma filter_neq_absent: "a \<notin> set xs \<Longrightarrow> filter (\<lambda>y. y \<noteq> a) xs = xs"
  by (induction xs) auto

lemma unique_distinct: "distinct xs \<Longrightarrow> unique xs = xs"
  by (induction xs) (simp_all add: filter_neq_absent)

lemma set_difference: "set (difference xs ys) = set xs - set ys"
  by (auto simp: difference_def)

lemma set_intersection: "set (intersection xs ys) = set xs \<inter> set ys"
  by (auto simp: intersection_def)


lemma loc_rows_unique:
  "distinct (map fst rs) \<Longrightarrow> cin \<in> fst ` set rs \<Longrightarrow>
   \<exists>v. concat (map (\<lambda>(k, vs). if k = cin then [f vs] else []) rs) = [v]"
proof (induction rs)
  case Nil
  then show ?case by simp
next
  case (Cons r rs)
  obtain k vs where r: "r = (k, vs)" by (cases r)
  show ?case
  proof (cases "k = cin")
    case True
    with Cons.prems r have "cin \<notin> fst ` set rs" by auto
    then have "concat (map (\<lambda>(k, vs). if k = cin then [f vs] else []) rs) = []"
      by (induction rs) auto
    with True r show ?thesis by simp
  next
    case False
    with Cons r show ?thesis by auto
  qed
qed

lemma loc_scalar:
  assumes "distinct (index df)" "cin \<in> set (index df)" "col \<in> set (icolumns df)"
  shows "\<exists>v. loc df cin col = Inr (Scalar v)"
proof -
  from assms(1,2) obtain v where
    "concat (map (\<lambda>(k, vs). if k = cin then [cell_of (icolumns df) vs col] else []) (irows df)) = [v]"
    using loc_rows_unique [of "irows df" cin "\<lambda>vs. cell_of (icolumns df) vs col"]
    by (auto simp: index_def)
  with assms(3) show ?thesis by (simp add: loc_def)
qed

subsection \<open>The loops when every lookup succeeds\<close>

lemma new_loop_ok:
  "\<forall>cin\<in>set cins. \<exists>c. loc df cin ''CompanyName'' = Inr c \<Longrightarrow>
   new_loop df d cins acc = Inr (acc @ map (new_record df d) cins)"
  by (induction cins arbitrary: acc) (auto simp: new_record_def)

lemma gone_loop_ok:
  "\<forall>cin\<in>set cins. \<exists>c. loc df cin ''CompanyName'' = Inr c \<Longrightarrow>
   gone_loop df d cins acc = Inr (acc @ map (gone_record df d) cins)"
  by (induction cins arbitrary: acc) (auto simp: gone_record_def)

lemma col_loop_ok:
  "\<forall>col\<in>set cols. scalars df_old df_new (cin, col) \<Longrightarrow>
   col_loop df_old df_new d cin cols acc =
     Inr (acc @ map (update_record df_old df_new d)
                  (filter (differs df_old df_new) (map (Pair cin) cols)))"
  by (induction cols arbitrary: acc) (auto simp: update_record_def differs_def scalars_def)

lemma common_loop_ok:
  "\<forall>cin\<in>set cins. \<forall>col\<in>set columns_to_check. scalars df_old df_new (cin, col) \<Longrightarrow>
   common_loop df_old df_new d cins acc =
     Inr (acc @ map (update_record df_old df_new d)
                  (filter (differs df_old df_new) (List.product cins columns_to_check)))"
  by (induction cins arbitrary: acc) (auto simp: col_loop_ok)

lemma snapshot_scalars:
  assumes "snapshot df_old" "snapshot df_new" "cin \<in> set (index df_old)"
    "cin \<in> set (index df_new)" "col \<in> set columns_to_check"
  shows "scalars df_old df_new (cin, col)"
proof -
  from assms have "\<exists>a. loc df_old cin col = Inr (Scalar a)"
    by (intro loc_scalar) (auto simp: snapshot_def)
  moreover from assms have "\<exists>b. loc df_new cin col = Inr (Scalar b)"
    by (intro loc_scalar) (auto simp: snapshot_def)
  ultimately show ?thesis by (auto simp: scalars_def)
qed

lemma diff_frames_snapshots:
  assumes "snapshot df_old" "snapshot df_new"
  shows "diff_frames df_old df_new d =
     Inr (map (new_record df_new d) (difference (index df_new) (index df_old)) @
          map (gone_record df_old d) (difference (index df_old) (index df_new)) @
          map (update_record df_old df_new d)
            (filter (differs df_old df_new)
               (List.product (intersection (index df_old) (index df_new)) columns_to_check)))"
proof -
  have n: "\<forall>cin\<in>set (difference (index df_new) (index df_old)).
             \<exists>c. loc df_new cin ''CompanyName'' = Inr c"
    using assms(2) loc_scalar [of df_new _ "''CompanyName''"]
    by (auto simp: set_difference snapshot_def)
  have g: "\<forall>cin\<in>set (difference (index df_old) (index df_new)).
             \<exists>c. loc df_old cin ''CompanyName'' = Inr c"
    using assms(1) loc_scalar [of df_old _ "''CompanyName''"]
    by (auto simp: set_difference snapshot_def)
  have c: "\<forall>cin\<in>set (intersection (index df_old) (index df_new)).
             \<forall>col\<in>set columns_to_check. scalars df_old df_new (cin, col)"
    using assms by (auto simp: set_intersection intro: snapshot_scalars)
  show ?thesis
    unfolding diff_frames_def Let_def
    by (simp add: new_loop_ok [OF n] gone_loop_ok [OF g] common_loop_ok [OF c])
qed

lemma find_changes_loaded:
  "load_frames fs old_path new_path = Inr (df_old, df_new) \<Longrightarrow>
   find_changes fs old_path new_path d = diff_frames df_old df_new d"
  by (simp add: find_changes_def)

subsection \<open>Reading the records\<close>

lemma has_type_change_dict [simp]:
  "has_type ty (change_dict cin ty' f ov nv d) \<longleftrightarrow> ty' = ty"
  by (simp add: has_type_def change_dict_def)

lemma cin_of_change_dict [simp]:
  "cin_of (change_dict cin ty f ov nv d) = Some (Scalar (Str cin))"
  by (simp add: cin_of_def change_dict_def)

lemma field_of_change_dict [simp]:
  "field_of (change_dict cin ty f ov nv d) = Some (Scalar (Str f))"
  by (simp add: field_of_def change_dict_def)

lemma difference_self: "difference xs xs = []"
  by (simp add: difference_def)

lemma intersection_self: "distinct xs \<Longrightarrow> intersection xs xs = xs"
  by (simp add: intersection_def unique_distinct)

lemma py_ne_same: "py_ne a a = isna a"
  by (cases a) simp_all

subsection \<open>Two snapshots\<close>




lemma bit_width_pos: "0 < n \<Longrightarrow> bit_width n = Suc (bit_width (n div 2))"
  by (simp add: bit_width.simps [of n])

lemma bit_width_nonpos: "n \<le> 0 \<Longrightarrow> bit_width n = 0"
  by (simp add: bit_width.simps [of n])

lemma bit_width_le: "n < 2 ^ k \<Longrightarrow> bit_width n \<le> k"
proof (induction n arbitrary: k rule: bit_width.induct)
  case (1 n)
  show ?case
  proof (cases "n \<le> 0")
    case True
    then show ?thesis by (simp add: bit_width_nonpos)
  next
    case False
    with "1.prems" obtain k' where k: "k = Suc k'"
      by (cases k) auto
    with "1.prems" have "n div 2 < 2 ^ k'" by auto
    with "1.IH" [OF False] have "bit_width (n div 2) \<le> k'" by simp
    with False k show ?thesis by (simp add: bit_width_pos)
  qed
qed

text \<open>Up to \<open>2 ^ 53\<close> in magnitude the conversion to \<^verbatim>\<open>float64\<close> is exact.\<close>

lemma float64_exact: "\<bar>i\<bar> \<le> 2 ^ 53 \<Longrightarrow> float64_of_int i = i"
proof -
  assume a: "\<bar>i\<bar> \<le> 2 ^ 53"
  show ?thesis
  proof (cases "\<bar>i\<bar> = 2 ^ 53")
    case True
    then have "i = 2 ^ 53 \<or> i = - (2 ^ 53)" by linarith
    then show ?thesis
      by (auto simp: float64_of_int_def round_half_even_def bit_width_pos bit_width_nonpos)
  next
    case False
    with a have "\<bar>i\<bar> < 2 ^ 53" by simp
    then have "bit_width \<bar>i\<bar> - 53 = 0"
      using bit_width_le [of "\<bar>i\<bar>" 53] by simp
    then show ?thesis
      by (simp add: float64_of_int_def round_half_even_def Let_def sgn_if)
  qed
qed

lemma not_rounded_small:
  "\<bar>sint i\<bar> \<le> 2 ^ 53 \<Longrightarrow> \<not> rounded (Int64 i) b \<and> \<not> rounded a (Int64 i)"
  by (cases a; cases b) (simp_all add: float64_exact)


lemma find_changes_snapshots:
  assumes "load_frames fs old_path new_path = Inr (df_old, df_new)"
    "snapshot df_old" "snapshot df_new"
  shows "find_changes fs old_path new_path d =
     Inr (map (new_record df_new d) (difference (index df_new) (index df_old)) @
          map (gone_record df_old d) (difference (index df_old) (index df_new)) @
          map (update_record df_old df_new d)
            (filter (differs df_old df_new)
               (List.product (intersection (index df_old) (index df_new)) columns_to_check)))"
  using assms by (simp add: find_changes_loaded diff_frames_snapshots)

subsection \<open>Scenario A\<close>










lemma difference_distinct:
  "distinct xs \<Longrightarrow>
   difference xs ys = (if ys = [] then xs else sort (filter (\<lambda>k. k \<notin> set ys) xs))"
  by (simp add: difference_def unique_distinct)

lemma intersection_distinct:
  "distinct xs \<Longrightarrow> intersection xs ys = filter (\<lambda>k. k \<in> set ys) xs"
  by (simp add: intersection_def unique_distinct)

lemma scenario_A_result:
  "find_changes scenario_A ''day1.csv'' ''day2.csv'' ''Day 2'' = Inr log_A"
  by (simp add: find_changes_def load_frames_def read_csv_def set_index_def scenario_A_def
        day1_def day2_def header_def diff_frames_def index_def difference_def intersection_def
        loc_def cell_of_def columns_to_check_def log_A_def)

subsection \<open>What holds of every record of a run\<close>

lemma new_loop_all:
  "new_loop df d cins acc = Inr out \<Longrightarrow> \<forall>r\<in>set acc. P r \<Longrightarrow>
   (\<And>c t f ov nv. P (change_dict c t f ov nv d)) \<Longrightarrow> \<forall>r\<in>set out. P r"
proof (induction cins arbitrary: acc)
  case Nil
  then show ?case by simp
next
  case (Cons cin cins)
  from Cons.prems(1) obtain name where
    "new_loop df d cins
       (acc @ [change_dict cin ''New Incorporation'' ''N/A'' (Scalar (Str ''N/A'')) name d]) =
     Inr out"
    by (auto split: sum.splits)
  moreover have "\<forall>r\<in>set (acc @
      [change_dict cin ''New Incorporation'' ''N/A'' (Scalar (Str ''N/A'')) name d]). P r"
    using Cons.prems(2,3) by simp
  ultimately show ?case using Cons.prems(3) by (rule Cons.IH)
qed

lemma gone_loop_all:
  "gone_loop df d cins acc = Inr out \<Longrightarrow> \<forall>r\<in>set acc. P r \<Longrightarrow>
   (\<And>c t f ov nv. P (change_dict c t f ov nv d)) \<Longrightarrow> \<forall>r\<in>set out. P r"
proof (induction cins arbitrary: acc)
  case Nil
  then show ?case by simp
next
  case (Cons cin cins)
  from Cons.prems(1) obtain name where
    "gone_loop df d cins
       (acc @ [change_dict cin ''Deregistered'' ''N/A'' name (Scalar (Str ''N/A'')) d]) =
     Inr out"
    by (auto split: sum.splits)
  moreover have "\<forall>r\<in>set (acc @
      [change_dict cin ''Deregistered'' ''N/A'' name (Scalar (Str ''N/A'')) d]). P r"
    using Cons.prems(2,3) by simp
  ultimately show ?case using Cons.prems(3) by (rule Cons.IH)
qed

lemma col_loop_all:
  "col_loop df_old df_new d cin cols acc = Inr out \<Longrightarrow> \<forall>r\<in>set acc. P r \<Longrightarrow>
   (\<And>c t f ov nv. P (change_dict c t f ov nv d)) \<Longrightarrow> \<forall>r\<in>set out. P r"
proof (induction cols arbitrary: acc)
  case Nil
  then show ?case by simp
next
  case (Cons col cols)
  from Cons.prems(1) obtain old_val new_val b where
    "col_loop df_old df_new d cin cols
       (if b then acc @ [change_dict cin ''Field Update'' col old_val new_val d] else acc) =
     Inr out"
    by (auto split: sum.splits)
  moreover have "\<forall>r\<in>set (if b then acc @
      [change_dict cin ''Field Update'' col old_val new_val d] else acc). P r"
    using Cons.prems(2,3) by simp
  ultimately show ?case using Cons.prems(3) by (rule Cons.IH)
qed

lemma common_loop_all:
  "common_loop df_old df_new d cins acc = Inr out \<Longrightarrow> \<forall>r\<in>set acc. P r \<Longrightarrow>
   (\<And>c t f ov nv. P (change_dict c t f ov nv d)) \<Longrightarrow> \<forall>r\<in>set out. P r"
proof (induction cins arbitrary: acc)
  case Nil
  then show ?case by simp
next
  case (Cons cin cins)
  from Cons.prems(1) obtain acc' where
    1: "col_loop df_old df_new d cin columns_to_check acc = Inr acc'" and
    2: "common_loop df_old df_new d cins acc' = Inr out"
    by (auto split: sum.splits)
  from 1 Cons.prems(2,3) have "\<forall>r\<in>set acc'. P r" by (rule col_loop_all)
  with 2 show ?case using Cons.prems(3) by (rule Cons.IH)
qed

lemma diff_frames_all:
  assumes "diff_frames df_old df_new d = Inr out"
    "\<And>c t f ov nv. P (change_dict c t f ov nv d)"
  shows "\<forall>r\<in>set out. P r"
proof -
  from assms(1) obtain l1 l2 where
    1: "new_loop df_new d (difference (index df_new) (index df_old)) [] = Inr l1" and
    2: "gone_loop df_old d (difference (index df_old) (index df_new)) l1 = Inr l2" and
    3: "common_loop df_old df_new d (intersection (index df_old) (index df_new)) l2 = Inr out"
    by (auto simp: diff_frames_def Let_def split: sum.splits)
  have "\<forall>r\<in>set []. P r" by simp
  with 1 have "\<forall>r\<in>set l1. P r"
    using assms(2) by (rule new_loop_all)
  with 2 have "\<forall>r\<in>set l2. P r"
    using assms(2) by (rule gone_loop_all)
  with 3 show ?thesis
    using assms(2) by (rule common_loop_all)
qed

lemma find_changes_all:
  assumes "find_changes fs old_path new_path d = Inr out"
    "\<And>c t f ov nv. P (change_dict c t f ov nv d)"
  shows "\<forall>r\<in>set out. P r"
proof (cases "load_frames fs old_path new_path")
  case (Inl e)
  with assms(1) show ?thesis
    by (cases e) (auto simp: find_changes_def)
next
  case (Inr p)
  obtain df_old df_new where "p = (df_old, df_new)" by (cases p)
  with Inr assms(1) have "diff_frames df_old df_new d = Inr out"
    by (simp add: find_changes_def)
  then show ?thesis using assms(2) by (rule diff_frames_all)
qed

subsection \<open>Runs that raise\<close>

lemma loc_rows_length:
  "length (concat (map (\<lambda>(k, vs). if k = cin then [f vs] else []) rs)) =
   count_list (map fst rs) cin"
  by (induction rs) auto

lemma loc_series:
  assumes "col \<in> set (icolumns df)" "1 < count_list (index df) cin"
  shows "\<exists>vs. loc df cin col = Inr (Series vs)"
proof -
  let ?cs = "concat (map (\<lambda>(k, vs). if k = cin then [cell_of (icolumns df) vs col] else [])
               (irows df))"
  from assms(2) have "1 < length ?cs"
    by (simp add: loc_rows_length index_def)
  then obtain x y zs where "?cs = x # y # zs"
    by (cases ?cs rule: remdups_adj.cases) auto
  with assms(1) show ?thesis by (simp add: loc_def)
qed

lemma loc_present:
  assumes "col \<in> set (icolumns df)" "cin \<in> set (index df)"
  shows "\<exists>c. loc df cin col = Inr c"
proof -
  let ?cs = "concat (map (\<lambda>(k, vs). if k = cin then [cell_of (icolumns df) vs col] else [])
               (irows df))"
  from assms(2) have "count_list (index df) cin \<noteq> 0"
    by (simp add: count_list_0_iff)
  then have "0 < count_list (index df) cin"
    by simp
  then have "0 < length ?cs"
    by (simp add: loc_rows_length index_def)
  then obtain x xs where "?cs = x # xs"
    by (cases ?cs) auto
  with assms(1) show ?thesis by (cases xs) (simp_all add: loc_def)
qed

lemma loc_error: "loc df cin col = Inl e \<Longrightarrow> e = KeyError"
  by (auto simp: loc_def split: if_splits list.splits)

lemma is_changed_error: "is_changed a b = Inl e \<Longrightarrow> e = ValueError"
  by (cases a; cases b) simp_all

lemma is_changed_series: "is_changed (Series vs) b = Inl ValueError"
  "is_changed a (Series vs) = Inl ValueError"
  by (cases a; simp)+

lemma new_loop_error: "new_loop df d cins acc = Inl e \<Longrightarrow> e = KeyError"
  by (induction cins arbitrary: acc) (auto split: sum.splits dest: loc_error)

lemma gone_loop_error: "gone_loop df d cins acc = Inl e \<Longrightarrow> e = KeyError"
  by (induction cins arbitrary: acc) (auto split: sum.splits dest: loc_error)

lemma col_loop_error:
  "col_loop df_old df_new d cin cols acc = Inl e \<Longrightarrow> e = KeyError \<or> e = ValueError"
  by (induction cols arbitrary: acc)
     (auto split: sum.splits dest: loc_error is_changed_error)

lemma common_loop_error:
  "common_loop df_old df_new d cins acc = Inl e \<Longrightarrow> e = KeyError \<or> e = ValueError"
  by (induction cins arbitrary: acc) (auto split: sum.splits dest: col_loop_error)

lemma diff_frames_error:
  "diff_frames df_old df_new d = Inl e \<Longrightarrow> e = KeyError \<or> e = ValueError"
  by (auto simp: diff_frames_def Let_def split: sum.splits
           dest: new_loop_error gone_loop_error common_loop_error)

lemma common_loop_fails:
  "cin \<in> set cins \<Longrightarrow>
   (\<And>acc. \<exists>e. col_loop df_old df_new d cin columns_to_check acc = Inl e) \<Longrightarrow>
   \<exists>e. common_loop df_old df_new d cins acc = Inl e"
proof (induction cins arbitrary: acc)
  case Nil
  then show ?case by simp
next
  case (Cons c cins)
  show ?case
  proof (cases "col_loop df_old df_new d c columns_to_check acc")
    case (Inl e)
    then show ?thesis by simp
  next
    case (Inr acc')
    with Cons.prems(2) [of acc] have "c \<noteq> cin" by auto
    with Cons.prems(1) have "cin \<in> set cins" by simp
    from Cons.IH [OF this Cons.prems(2)] Inr show ?thesis by simp
  qed
qed

lemma diff_frames_fails:
  assumes "cin \<in> set (intersection (index df_old) (index df_new))"
    "\<And>acc. \<exists>e. col_loop df_old df_new d cin columns_to_check acc = Inl e"
  shows "\<exists>e. diff_frames df_old df_new d = Inl e"
  using common_loop_fails [OF assms]
  by (auto simp: diff_frames_def Let_def split: sum.splits)

lemma col_loop_duplicate:
  assumes "cin \<in> set (index df_old)" "cin \<in> set (index df_new)"
    "1 < count_list (index df_old) cin \<or> 1 < count_list (index df_new) cin"
  shows "\<exists>e. col_loop df_old df_new d cin (col # cols) acc = Inl e"
proof (cases "col \<in> set (icolumns df_old) \<and> col \<in> set (icolumns df_new)")
  case False
  then have "loc df_old cin col = Inl KeyError \<or> loc df_new cin col = Inl KeyError"
    by (auto simp: loc_def)
  then show ?thesis by (auto split: sum.splits)
next
  case True
  with assms(1,2) obtain a b where
    ab: "loc df_old cin col = Inr a" "loc df_new cin col = Inr b"
    using loc_present [of col df_old cin] loc_present [of col df_new cin] by auto
  from assms(3) True ab have "(\<exists>vs. a = Series vs) \<or> (\<exists>vs. b = Series vs)"
    using loc_series [of col df_old cin] loc_series [of col df_new cin] by auto
  then have "is_changed a b = Inl ValueError"
    by (auto simp: is_changed_series)
  with ab show ?thesis by simp
qed

lemma col_loop_missing:
  "col \<in> set cols \<Longrightarrow> col \<notin> set (icolumns df_old) \<or> col \<notin> set (icolumns df_new) \<Longrightarrow>
   \<exists>e. col_loop df_old df_new d cin cols acc = Inl e"
proof (induction cols arbitrary: acc)
  case Nil
  then show ?case by simp
next
  case (Cons c cols)
  show ?case
  proof (cases "c = col")
    case True
    with Cons.prems(2) have
      "loc df_old cin c = Inl KeyError \<or> loc df_new cin c = Inl KeyError"
      by (auto simp: loc_def)
    then show ?thesis by (auto split: sum.splits)
  next
    case False
    with Cons.prems(1) have "col \<in> set cols" by simp
    from Cons.IH [OF this Cons.prems(2)] show ?thesis
      by (auto split: sum.splits)
  qed
qed

lemma new_loop_no_name:
  "''CompanyName'' \<notin> set (icolumns df) \<Longrightarrow> cins \<noteq> [] \<Longrightarrow>
   new_loop df d cins acc = Inl KeyError"
  by (cases cins) (simp_all add: loc_def)

text \<open>With every column present only the test of line 118 can fail.\<close>

lemma col_loop_error_columns:
  "col_loop df_old df_new d cin cols acc = Inl e \<Longrightarrow>
   set cols \<subseteq> set (icolumns df_old) \<Longrightarrow> set cols \<subseteq> set (icolumns df_new) \<Longrightarrow>
   cin \<in> set (index df_old) \<Longrightarrow> cin \<in> set (index df_new) \<Longrightarrow> e = ValueError"
proof (induction cols arbitrary: acc)
  case Nil
  then show ?case by simp
next
  case (Cons col cols)
  from Cons.prems obtain a b where
    ab: "loc df_old cin col = Inr a" "loc df_new cin col = Inr b"
    using loc_present [of col df_old cin] loc_present [of col df_new cin] by auto
  show ?case
  proof (cases "is_changed a b")
    case (Inl e')
    with ab Cons.prems(1) have "e = e'" by simp
    with Inl show ?thesis by (simp add: is_changed_error)
  next
    case (Inr t)
    with ab Cons.prems(1) have
      "col_loop df_old df_new d cin cols
         (if t then acc @ [change_dict cin ''Field Update'' col a b d] else acc) = Inl e"
      by simp
    from Cons.IH [OF this] Cons.prems(2-5) show ?thesis by simp
  qed
qed

lemma common_loop_error_columns:
  "common_loop df_old df_new d cins acc = Inl e \<Longrightarrow>
   set columns_to_check \<subseteq> set (icolumns df_old) \<Longrightarrow>
   set columns_to_check \<subseteq> set (icolumns df_new) \<Longrightarrow>
   set cins \<subseteq> set (index df_old) \<inter> set (index df_new) \<Longrightarrow> e = ValueError"
proof (induction cins arbitrary: acc)
  case Nil
  then show ?case by simp
next
  case (Cons cin cins)
  show ?case
  proof (cases "col_loop df_old df_new d cin columns_to_check acc")
    case (Inl e')
    with Cons.prems(1) have "e = e'" by simp
    with Inl Cons.prems(2-4) col_loop_error_columns [of df_old df_new d cin columns_to_check acc e']
    show ?thesis by simp
  next
    case (Inr acc')
    with Cons.prems(1) have "common_loop df_old df_new d cins acc' = Inl e" by simp
    from Cons.IH [OF this] Cons.prems(2-4) show ?thesis by simp
  qed
qed

lemma diff_frames_error_columns:
  assumes "diff_frames df_old df_new d = Inl e"
    "''CompanyName'' \<in> set (icolumns df_old)" "''CompanyName'' \<in> set (icolumns df_new)"
    "set columns_to_check \<subseteq> set (icolumns df_old)"
    "set columns_to_check \<subseteq> set (icolumns df_new)"
  shows "e = ValueError"
proof -
  have n: "\<forall>cin\<in>set (difference (index df_new) (index df_old)).
             \<exists>c. loc df_new cin ''CompanyName'' = Inr c"
    using assms(3) loc_present [of "''CompanyName''" df_new] by (auto simp: set_difference)
  have g: "\<forall>cin\<in>set (difference (index df_old) (index df_new)).
             \<exists>c. loc df_old cin ''CompanyName'' = Inr c"
    using assms(2) loc_present [of "''CompanyName''" df_old] by (auto simp: set_difference)
  from assms(1) obtain acc where
    "common_loop df_old df_new d (intersection (index df_old) (index df_new)) acc = Inl e"
    by (simp add: diff_frames_def Let_def new_loop_ok [OF n] gone_loop_ok [OF g])
  then show ?thesis
    using assms(4,5) by (rule common_loop_error_columns) (simp add: set_intersection)
qed

subsection \<open>The summary counts of a run\<close>

lemma column_cell_type:
  "((case map_of r ''Change_Type'' of Some c \<Rightarrow> c | None \<Rightarrow> Scalar NaN) = Scalar (Str ty)) =
   has_type ty r"
  by (auto simp: has_type_def split: option.splits)

lemma count_type_nonempty:
  assumes "\<forall>r\<in>set changes. map fst r =
      [''CIN'', ''Change_Type'', ''Field_Changed'', ''Old_Value'', ''New_Value'', ''Date'']"
    "changes \<noteq> []"
  shows "count_type changes ty = Inr (length (filter (has_type ty) changes))"
proof -
  from assms(2) obtain r where r: "r \<in> set changes"
    by (cases changes) auto
  with assms(1) have eq: "map fst r =
      [''CIN'', ''Change_Type'', ''Field_Changed'', ''Old_Value'', ''New_Value'', ''Date'']"
    by blast
  have "''Change_Type'' \<in> set (map fst r)"
    unfolding eq by simp
  with r have "list_ex (\<lambda>r. ''Change_Type'' \<in> set (map fst r)) changes"
    unfolding list_ex_iff by blast
  then show ?thesis
    by (simp add: count_type_def frame_column_def filter_map comp_def column_cell_type)
qed

lemma summary_counts_of_run:
  assumes "find_changes fs old_path new_path log_date = Inr changes" "changes \<noteq> []"
  shows "summary_counts changes =
     Inr (length (filter (has_type ''New Incorporation'') changes),
          length (filter (has_type ''Deregistered'') changes),
          length (filter (has_type ''Field Update'') changes))"
proof -
  have "\<forall>r\<in>set changes. map fst r =
      [''CIN'', ''Change_Type'', ''Field_Changed'', ''Old_Value'', ''New_Value'', ''Date'']"
    using assms(1) by (rule find_changes_all) (simp add: change_dict_def)
  then show ?thesis
    using assms(2) by (simp add: summary_counts_def count_type_nonempty)
qed

subsection \<open>The scenario with a rounded integer\<close>










section \<open>The claims\<close>




text \<open>
  C2, as the code has it. \<^verbatim>\<open>find_changes\<close> has no check for duplicate keys. When a key
  that occurs in two rows of one snapshot occurs in the other snapshot as well, the run
  raises and returns no change list: the lookup of the key yields a Series, and the test
  of line 118 raises ValueError on it (KeyError when a column is missing before the test
  is reached).
\<close>

theorem duplicate_common_key_raises:
  assumes "load_frames fs old_path new_path = Inr (df_old, df_new)"
    "cin \<in> set (index df_old)" "cin \<in> set (index df_new)"
    "1 < count_list (index df_old) cin \<or> 1 < count_list (index df_new) cin"
  shows "(find_changes fs old_path new_path log_date = Inl KeyError \<or>
          find_changes fs old_path new_path log_date = Inl ValueError) \<and>
         (''CompanyName'' \<in> set (icolumns df_old) \<and> ''CompanyName'' \<in> set (icolumns df_new) \<and>
          set columns_to_check \<subseteq> set (icolumns df_old) \<and>
          set columns_to_check \<subseteq> set (icolumns df_new) \<longrightarrow>
          find_changes fs old_path new_path log_date = Inl ValueError)"
proof -
  have "\<exists>e. col_loop df_old df_new log_date cin columns_to_check acc = Inl e" for acc
    unfolding columns_to_check_def using assms(2-4) by (rule col_loop_duplicate)
  moreover from assms(2,3) have "cin \<in> set (intersection (index df_old) (index df_new))"
    by (simp add: set_intersection)
  ultimately obtain e where e: "diff_frames df_old df_new log_date = Inl e"
    using diff_frames_fails [of cin df_old df_new log_date] by blast
  then have "e = KeyError \<or> e = ValueError"
    by (rule diff_frames_error)
  moreover have "e = ValueError"
    if "''CompanyName'' \<in> set (icolumns df_old)" "''CompanyName'' \<in> set (icolumns df_new)"
      "set columns_to_check \<subseteq> set (icolumns df_old)"
      "set columns_to_check \<subseteq> set (icolumns df_new)"
    using e that by (rule diff_frames_error_columns)
  ultimately show ?thesis
    using e assms(1) by (auto simp: find_changes_loaded)
qed

theorem duplicate_common_key_raises_witness:
  "load_frames scenario_dup_common ''day1.csv'' ''day2.csv'' =
     Inr (projr (set_index twice_K1), projr (set_index day1)) \<and>
   ''K1'' \<in> set (index (projr (set_index twice_K1))) \<and>
   ''K1'' \<in> set (index (projr (set_index day1))) \<and>
   1 < count_list (index (projr (set_index twice_K1))) ''K1'' \<and>
   find_changes scenario_dup_common ''day1.csv'' ''day2.csv'' ''Day 2'' = Inl ValueError"
proof -
  have a: "load_frames scenario_dup_common ''day1.csv'' ''day2.csv'' =
     Inr (projr (set_index twice_K1), projr (set_index day1))"
    by (simp add: load_frames_def read_csv_def scenario_dup_common_def set_index_def
        twice_K1_def day1_def header_def)
  have b: "''K1'' \<in> set (index (projr (set_index twice_K1)))"
    by (simp add: index_def set_index_def twice_K1_def header_def)
  have c: "''K1'' \<in> set (index (projr (set_index day1)))"
    by (simp add: index_def set_index_def day1_def header_def)
  have d: "1 < count_list (index (projr (set_index twice_K1))) ''K1''"
    by (simp add: index_def set_index_def twice_K1_def header_def)
  have cols: "''CompanyName'' \<in> set (icolumns (projr (set_index twice_K1)))"
    "''CompanyName'' \<in> set (icolumns (projr (set_index day1)))"
    "set columns_to_check \<subseteq> set (icolumns (projr (set_index twice_K1)))"
    "set columns_to_check \<subseteq> set (icolumns (projr (set_index day1)))"
    by (simp_all add: columns_to_check_def set_index_def twice_K1_def day1_def header_def)
  from d have d': "1 < count_list (index (projr (set_index twice_K1))) ''K1'' \<or>
      1 < count_list (index (projr (set_index day1))) ''K1''" ..
  from duplicate_common_key_raises [OF a b c d', of "''Day 2''"] cols
  have "find_changes scenario_dup_common ''day1.csv'' ''day2.csv'' ''Day 2'' = Inl ValueError"
    by blast
  with a b c d show ?thesis by blast
qed

text \<open>
  The claim as stated fails: K1 occurs twice in the new file and not in the old one; the
  run succeeds and returns a New Incorporation record for K1 whose new value is the Series
  of both names.
\<close>

theorem duplicate_key_not_rejected:
  "count_list (map fst (rows twice_K1)) ''K1'' = 2 \<and>
   find_changes scenario_dup_added ''day1.csv'' ''day2.csv'' ''Day 2'' =
     Inr [change_dict ''K1'' ''New Incorporation'' ''N/A'' (Scalar (Str ''N/A''))
            (Series [Str ''Alpha Ltd'', Str ''Alpha Two Ltd'']) ''Day 2'',
          change_dict ''K0'' ''Deregistered'' ''N/A'' (Scalar (Str ''Zero Ltd''))
            (Scalar (Str ''N/A'')) ''Day 2'']"
  by (simp add: find_changes_def load_frames_def read_csv_def set_index_def
        scenario_dup_added_def single_K0_def twice_K1_def header_def diff_frames_def index_def
        difference_def intersection_def loc_def cell_of_def columns_to_check_def)

text \<open>
  C3. For two snapshots with unique keys the run returns a list of three contiguous
  sections: the New Incorporation records, one for each key that is in the new snapshot
  only, then the Deregistered records, one for each key that is in the old snapshot only,
  then the Field Update records. On scenario A the result is exactly
  New Incorporation K3, Deregistered K1, Field Update K2 (CompanyStatus, Active to
  Strike Off), in that order.
\<close>

theorem sections_in_order:
  assumes "load_frames fs old_path new_path = Inr (df_old, df_new)"
    "snapshot df_old" "snapshot df_new"
  shows "(\<exists>xs ys zs. find_changes fs old_path new_path log_date = Inr (xs @ ys @ zs) \<and>
            list_all (has_type ''New Incorporation'') xs \<and>
            map cin_of xs =
              map (\<lambda>k. Some (Scalar (Str k))) (difference (index df_new) (index df_old)) \<and>
            list_all (has_type ''Deregistered'') ys \<and>
            map cin_of ys =
              map (\<lambda>k. Some (Scalar (Str k))) (difference (index df_old) (index df_new)) \<and>
            list_all (has_type ''Field Update'') zs) \<and>
         find_changes scenario_A ''day1.csv'' ''day2.csv'' ''Day 2'' = Inr log_A"
proof
  let ?xs = "map (new_record df_new log_date) (difference (index df_new) (index df_old))"
  let ?ys = "map (gone_record df_old log_date) (difference (index df_old) (index df_new))"
  let ?zs = "map (update_record df_old df_new log_date)
            (filter (differs df_old df_new)
               (List.product (intersection (index df_old) (index df_new)) columns_to_check))"
  have "find_changes fs old_path new_path log_date = Inr (?xs @ ?ys @ ?zs)"
    using assms by (simp add: find_changes_loaded diff_frames_snapshots)
  moreover have "list_all (has_type ''New Incorporation'') ?xs"
    by (simp add: list_all_iff new_record_def)
  moreover have "list_all (has_type ''Deregistered'') ?ys"
    by (simp add: list_all_iff gone_record_def)
  moreover have "list_all (has_type ''Field Update'') ?zs"
    by (simp add: list_all_iff update_record_def)
  moreover have "map cin_of ?xs =
      map (\<lambda>k. Some (Scalar (Str k))) (difference (index df_new) (index df_old))"
    by (simp add: new_record_def)
  moreover have "map cin_of ?ys =
      map (\<lambda>k. Some (Scalar (Str k))) (difference (index df_old) (index df_new))"
    by (simp add: gone_record_def)
  ultimately show "\<exists>xs ys zs. find_changes fs old_path new_path log_date = Inr (xs @ ys @ zs) \<and>
            list_all (has_type ''New Incorporation'') xs \<and>
            map cin_of xs =
              map (\<lambda>k. Some (Scalar (Str k))) (difference (index df_new) (index df_old)) \<and>
            list_all (has_type ''Deregistered'') ys \<and>
            map cin_of ys =
              map (\<lambda>k. Some (Scalar (Str k))) (difference (index df_old) (index df_new)) \<and>
            list_all (has_type ''Field Update'') zs"
    by blast
next
  show "find_changes scenario_A ''day1.csv'' ''day2.csv'' ''Day 2'' = Inr log_A"
    by (simp add: find_changes_def load_frames_def read_csv_def set_index_def scenario_A_def
        day1_def day2_def header_def diff_frames_def index_def difference_def intersection_def
        loc_def cell_of_def columns_to_check_def log_A_def)
qed

theorem sections_in_order_witness:
  "load_frames scenario_A ''day1.csv'' ''day2.csv'' =
     Inr (projr (set_index day1), projr (set_index day2)) \<and>
   snapshot (projr (set_index day1)) \<and> snapshot (projr (set_index day2)) \<and>
   (\<exists>xs ys zs. find_changes scenario_A ''day1.csv'' ''day2.csv'' ''Day 2'' = Inr (xs @ ys @ zs) \<and>
      list_all (has_type ''New Incorporation'') xs \<and>
      map cin_of xs = [Some (Scalar (Str ''K3''))] \<and>
      list_all (has_type ''Deregistered'') ys \<and>
      map cin_of ys = [Some (Scalar (Str ''K1''))] \<and>
      list_all (has_type ''Field Update'') zs)"
proof -
  have a: "load_frames scenario_A ''day1.csv'' ''day2.csv'' =
     Inr (projr (set_index day1), projr (set_index day2))"
    by (simp add: load_frames_def read_csv_def scenario_A_def set_index_def day1_def day2_def
        header_def)
  have b: "snapshot (projr (set_index day1))"
    by (simp add: snapshot_def index_def columns_to_check_def set_index_def day1_def header_def)
  have c: "snapshot (projr (set_index day2))"
    by (simp add: snapshot_def index_def columns_to_check_def set_index_def day2_def header_def)
  have d: "difference (index (projr (set_index day2))) (index (projr (set_index day1))) = [''K3'']"
    by (simp add: difference_def index_def set_index_def day1_def day2_def header_def)
  have e: "difference (index (projr (set_index day1))) (index (projr (set_index day2))) = [''K1'']"
    by (simp add: difference_def index_def set_index_def day1_def day2_def header_def)
  note w = sections_in_order [OF a b c, where log_date = "''Day 2''", THEN conjunct1,
      unfolded d e list.map]
  from w a b c show ?thesis by blast
qed

text \<open>
  C4, as the code has it. For two snapshots with unique keys the records of each section
  are in a fixed order. The keys of the New Incorporation records are the keys that are
  in the new snapshot only, in ascending order of the strings; when the old snapshot has
  no row they are in the order of the new file. The keys of the Deregistered records are
  the keys that are in the old snapshot only, likewise ascending, and in the order of the
  old file when the new snapshot has no row. The Field Update records are grouped by key,
  the keys in the order in which the old file lists them, and within a key the columns
  are in the order CompanyStatus, AuthorizedCapital, PaidupCapital.
\<close>

theorem section_orders:
  assumes "load_frames fs old_path new_path = Inr (df_old, df_new)"
    "snapshot df_old" "snapshot df_new"
  shows "\<exists>xs ys zs. find_changes fs old_path new_path log_date = Inr (xs @ ys @ zs) \<and>
     list_all (has_type ''New Incorporation'') xs \<and>
     list_all (has_type ''Deregistered'') ys \<and>
     list_all (has_type ''Field Update'') zs \<and>
     map cin_of xs = map (\<lambda>k. Some (Scalar (Str k)))
       (if index df_old = [] then index df_new
        else sort (filter (\<lambda>k. k \<notin> set (index df_old)) (index df_new))) \<and>
     map cin_of ys = map (\<lambda>k. Some (Scalar (Str k)))
       (if index df_new = [] then index df_old
        else sort (filter (\<lambda>k. k \<notin> set (index df_new)) (index df_old))) \<and>
     map (\<lambda>r. (cin_of r, field_of r)) zs =
       map (\<lambda>p. (Some (Scalar (Str (fst p))), Some (Scalar (Str (snd p)))))
         (filter (differs df_old df_new)
            (List.product (filter (\<lambda>k. k \<in> set (index df_new)) (index df_old))
               columns_to_check))"
proof -
  let ?A = "difference (index df_new) (index df_old)"
  let ?R = "difference (index df_old) (index df_new)"
  let ?C = "intersection (index df_old) (index df_new)"
  let ?xs = "map (new_record df_new log_date) ?A"
  let ?ys = "map (gone_record df_old log_date) ?R"
  let ?zs = "map (update_record df_old df_new log_date)
               (filter (differs df_old df_new) (List.product ?C columns_to_check))"
  from assms(2,3) have d: "distinct (index df_old)" "distinct (index df_new)"
    by (simp_all add: snapshot_def)
  have A: "?A = (if index df_old = [] then index df_new
        else sort (filter (\<lambda>k. k \<notin> set (index df_old)) (index df_new)))"
    using d(2) by (rule difference_distinct)
  have R: "?R = (if index df_new = [] then index df_old
        else sort (filter (\<lambda>k. k \<notin> set (index df_new)) (index df_old)))"
    using d(1) by (rule difference_distinct)
  have C: "?C = filter (\<lambda>k. k \<in> set (index df_new)) (index df_old)"
    using d(1) by (rule intersection_distinct)
  have res: "find_changes fs old_path new_path log_date = Inr (?xs @ ?ys @ ?zs)"
    using assms by (rule find_changes_snapshots)
  have t: "list_all (has_type ''New Incorporation'') ?xs"
    "list_all (has_type ''Deregistered'') ?ys"
    "list_all (has_type ''Field Update'') ?zs"
    by (simp_all add: list_all_iff new_record_def gone_record_def update_record_def)
  have kx: "map cin_of ?xs = map (\<lambda>k. Some (Scalar (Str k))) ?A"
    by (simp add: new_record_def)
  have ky: "map cin_of ?ys = map (\<lambda>k. Some (Scalar (Str k))) ?R"
    by (simp add: gone_record_def)
  have kz: "map (\<lambda>r. (cin_of r, field_of r)) ?zs =
       map (\<lambda>p. (Some (Scalar (Str (fst p))), Some (Scalar (Str (snd p)))))
         (filter (differs df_old df_new) (List.product ?C columns_to_check))"
    by (simp add: update_record_def)
  from res t kx ky kz show ?thesis
    unfolding A R C by blast
qed

theorem section_orders_witness:
  "load_frames scenario_order ''day1.csv'' ''day2.csv'' =
     Inr (projr (set_index day1_order), projr (set_index day2_order)) \<and>
   snapshot (projr (set_index day1_order)) \<and> snapshot (projr (set_index day2_order)) \<and>
   (\<exists>xs ys zs. find_changes scenario_order ''day1.csv'' ''day2.csv'' ''Day 2'' = Inr (xs @ ys @ zs) \<and>
     list_all (has_type ''New Incorporation'') xs \<and>
     list_all (has_type ''Deregistered'') ys \<and>
     list_all (has_type ''Field Update'') zs \<and>
     map cin_of xs = [Some (Scalar (Str ''K3'')), Some (Scalar (Str ''K8''))] \<and>
     map cin_of ys = [Some (Scalar (Str ''K4'')), Some (Scalar (Str ''K9''))] \<and>
     map (\<lambda>r. (cin_of r, field_of r)) zs =
       [(Some (Scalar (Str ''K5'')), Some (Scalar (Str ''CompanyStatus''))),
        (Some (Scalar (Str ''K5'')), Some (Scalar (Str ''PaidupCapital''))),
        (Some (Scalar (Str ''K2'')), Some (Scalar (Str ''CompanyStatus''))),
        (Some (Scalar (Str ''K2'')), Some (Scalar (Str ''AuthorizedCapital'')))]) \<and>
   load_frames scenario_empty_old ''day1.csv'' ''day2.csv'' =
     Inr (projr (set_index header_only), projr (set_index day1_unsorted)) \<and>
   snapshot (projr (set_index header_only)) \<and> snapshot (projr (set_index day1_unsorted)) \<and>
   (\<exists>xs ys zs. find_changes scenario_empty_old ''day1.csv'' ''day2.csv'' ''Day 2'' = Inr (xs @ ys @ zs) \<and>
     list_all (has_type ''New Incorporation'') xs \<and>
     list_all (has_type ''Deregistered'') ys \<and>
     list_all (has_type ''Field Update'') zs \<and>
     map cin_of xs = [Some (Scalar (Str ''K2'')), Some (Scalar (Str ''K1''))] \<and>
     map cin_of ys = [] \<and>
     map (\<lambda>r. (cin_of r, field_of r)) zs = []) \<and>
   load_frames scenario_empty_new ''day1.csv'' ''day2.csv'' =
     Inr (projr (set_index day1_unsorted), projr (set_index header_only)) \<and>
   (\<exists>xs ys zs. find_changes scenario_empty_new ''day1.csv'' ''day2.csv'' ''Day 2'' = Inr (xs @ ys @ zs) \<and>
     list_all (has_type ''New Incorporation'') xs \<and>
     list_all (has_type ''Deregistered'') ys \<and>
     list_all (has_type ''Field Update'') zs \<and>
     map cin_of xs = [] \<and>
     map cin_of ys = [Some (Scalar (Str ''K2'')), Some (Scalar (Str ''K1''))] \<and>
     map (\<lambda>r. (cin_of r, field_of r)) zs = [])"
proof -
  have l1: "load_frames scenario_order ''day1.csv'' ''day2.csv'' =
     Inr (projr (set_index day1_order), projr (set_index day2_order))"
    by (simp add: load_frames_def read_csv_def scenario_order_def set_index_def
        day1_order_def day2_order_def header_def)
  have s1: "snapshot (projr (set_index day1_order))"
    by (simp add: snapshot_def index_def columns_to_check_def set_index_def day1_order_def
        header_def)
  have s2: "snapshot (projr (set_index day2_order))"
    by (simp add: snapshot_def index_def columns_to_check_def set_index_def day2_order_def
        header_def)
  have a1: "(if index (projr (set_index day1_order)) = [] then index (projr (set_index day2_order))
        else sort (filter (\<lambda>k. k \<notin> set (index (projr (set_index day1_order))))
               (index (projr (set_index day2_order))))) = [''K3'', ''K8'']"
    by (simp add: index_def set_index_def day1_order_def day2_order_def header_def)
  have r1: "(if index (projr (set_index day2_order)) = [] then index (projr (set_index day1_order))
        else sort (filter (\<lambda>k. k \<notin> set (index (projr (set_index day2_order))))
               (index (projr (set_index day1_order))))) = [''K4'', ''K9'']"
    by (simp add: index_def set_index_def day1_order_def day2_order_def header_def)
  have c1: "filter (differs (projr (set_index day1_order)) (projr (set_index day2_order)))
            (List.product (filter (\<lambda>k. k \<in> set (index (projr (set_index day2_order))))
               (index (projr (set_index day1_order)))) columns_to_check) =
          [(''K5'', ''CompanyStatus''), (''K5'', ''PaidupCapital''),
           (''K2'', ''CompanyStatus''), (''K2'', ''AuthorizedCapital'')]"
    by (simp add: differs_def loc_def cell_of_def index_def set_index_def day1_order_def
        day2_order_def header_def columns_to_check_def)
  note w1 = section_orders [OF l1 s1 s2, where log_date = "''Day 2''",
      unfolded a1 r1 c1 list.map fst_conv snd_conv]
  have l2: "load_frames scenario_empty_old ''day1.csv'' ''day2.csv'' =
     Inr (projr (set_index header_only), projr (set_index day1_unsorted))"
    by (simp add: load_frames_def read_csv_def scenario_empty_old_def set_index_def
        header_only_def day1_unsorted_def header_def)
  have s3: "snapshot (projr (set_index header_only))"
    by (simp add: snapshot_def index_def columns_to_check_def set_index_def header_only_def
        header_def)
  have s4: "snapshot (projr (set_index day1_unsorted))"
    by (simp add: snapshot_def index_def columns_to_check_def set_index_def day1_unsorted_def
        header_def)
  have a2: "(if index (projr (set_index header_only)) = []
        then index (projr (set_index day1_unsorted))
        else sort (filter (\<lambda>k. k \<notin> set (index (projr (set_index header_only))))
               (index (projr (set_index day1_unsorted))))) = [''K2'', ''K1'']"
    by (simp add: index_def set_index_def header_only_def day1_unsorted_def header_def)
  have r2: "(if index (projr (set_index day1_unsorted)) = []
        then index (projr (set_index header_only))
        else sort (filter (\<lambda>k. k \<notin> set (index (projr (set_index day1_unsorted))))
               (index (projr (set_index header_only))))) = []"
    by (simp add: index_def set_index_def header_only_def day1_unsorted_def header_def)
  have c2: "filter (differs (projr (set_index header_only)) (projr (set_index day1_unsorted)))
            (List.product (filter (\<lambda>k. k \<in> set (index (projr (set_index day1_unsorted))))
               (index (projr (set_index header_only)))) columns_to_check) = []"
    by (simp add: index_def set_index_def header_only_def day1_unsorted_def header_def)
  note w2 = section_orders [OF l2 s3 s4, where log_date = "''Day 2''",
      unfolded a2 r2 c2 list.map fst_conv snd_conv]
  have l3: "load_frames scenario_empty_new ''day1.csv'' ''day2.csv'' =
     Inr (projr (set_index day1_unsorted), projr (set_index header_only))"
    by (simp add: load_frames_def read_csv_def scenario_empty_new_def set_index_def
        header_only_def day1_unsorted_def header_def)
  have c3: "filter (differs (projr (set_index day1_unsorted)) (projr (set_index header_only)))
            (List.product (filter (\<lambda>k. k \<in> set (index (projr (set_index header_only))))
               (index (projr (set_index day1_unsorted)))) columns_to_check) = []"
    by (simp add: index_def set_index_def header_only_def day1_unsorted_def header_def)
  note w3 = section_orders [OF l3 s4 s3, where log_date = "''Day 2''",
      unfolded a2 r2 c3 list.map fst_conv snd_conv]
  from w1 w2 w3 l1 s1 s2 l2 s3 s4 l3 show ?thesis by blast
qed

text \<open>
  The claim as stated fails: the old file lists K2 before K1, both keys are unique and
  common, and the Field Update record of K2 comes before that of K1.
\<close>

theorem field_updates_not_ascending:
  "find_changes scenario_unsorted ''day1.csv'' ''day2.csv'' ''Day 2'' =
     Inr [change_dict ''K2'' ''Field Update'' ''CompanyStatus'' (Scalar (Str ''Active''))
            (Scalar (Str ''Strike Off'')) ''Day 2'',
          change_dict ''K1'' ''Field Update'' ''CompanyStatus'' (Scalar (Str ''Active''))
            (Scalar (Str ''Strike Off'')) ''Day 2''] \<and>
   distinct (map fst (rows day1_unsorted)) \<and> distinct (map fst (rows day2_unsorted)) \<and>
   ''K1'' < ''K2''"
  by (simp add: find_changes_def load_frames_def read_csv_def set_index_def scenario_unsorted_def
        day1_unsorted_def day2_unsorted_def header_def diff_frames_def index_def difference_def
        intersection_def loc_def cell_of_def columns_to_check_def)




text \<open>
  C6, as the code has it. There is no check of the columns before the diff. When the new
  snapshot has no name column and some key is in the new snapshot only, or a watched
  column is absent from either snapshot and some key is in both, the run raises during
  the diff and returns no change list; the exception is KeyError in the first case, and
  KeyError or ValueError in the second.
\<close>

theorem missing_column_raises_when_reached:
  assumes "load_frames fs old_path new_path = Inr (df_old, df_new)"
    "(''CompanyName'' \<notin> set (icolumns df_new) \<and>
        difference (index df_new) (index df_old) \<noteq> []) \<or>
     ((\<exists>col\<in>set columns_to_check.
          col \<notin> set (icolumns df_old) \<or> col \<notin> set (icolumns df_new)) \<and>
        intersection (index df_old) (index df_new) \<noteq> [])"
  shows "(find_changes fs old_path new_path log_date = Inl KeyError \<or>
          find_changes fs old_path new_path log_date = Inl ValueError) \<and>
         (''CompanyName'' \<notin> set (icolumns df_new) \<and>
            difference (index df_new) (index df_old) \<noteq> [] \<longrightarrow>
          find_changes fs old_path new_path log_date = Inl KeyError)"
proof -
  have name: "diff_frames df_old df_new log_date = Inl KeyError"
    if "''CompanyName'' \<notin> set (icolumns df_new)"
      "difference (index df_new) (index df_old) \<noteq> []"
    using that by (simp add: diff_frames_def Let_def new_loop_no_name)
  have watched: "\<exists>e. diff_frames df_old df_new log_date = Inl e"
    if "col \<in> set columns_to_check"
      "col \<notin> set (icolumns df_old) \<or> col \<notin> set (icolumns df_new)"
      "intersection (index df_old) (index df_new) \<noteq> []" for col
  proof -
    from that(3) obtain cin where
      "cin \<in> set (intersection (index df_old) (index df_new))"
      by (cases "intersection (index df_old) (index df_new)") auto
    moreover have "\<exists>e. col_loop df_old df_new log_date cin columns_to_check acc = Inl e" for acc
      using that(1,2) by (rule col_loop_missing)
    ultimately show ?thesis by (rule diff_frames_fails)
  qed
  from assms(2) name watched obtain e where e: "diff_frames df_old df_new log_date = Inl e"
    by blast
  then have "e = KeyError \<or> e = ValueError"
    by (rule diff_frames_error)
  with e name assms(1) show ?thesis
    by (auto simp: find_changes_loaded)
qed

theorem missing_column_raises_when_reached_witness:
  "load_frames scenario_no_name_added ''day1.csv'' ''day2.csv'' =
     Inr (projr (set_index single_K0), projr (set_index day2_no_name)) \<and>
   ''CompanyName'' \<notin> set (icolumns (projr (set_index day2_no_name))) \<and>
   difference (index (projr (set_index day2_no_name))) (index (projr (set_index single_K0))) \<noteq> [] \<and>
   find_changes scenario_no_name_added ''day1.csv'' ''day2.csv'' ''Day 2'' = Inl KeyError \<and>
   load_frames scenario_no_capital ''day1.csv'' ''day2.csv'' =
     Inr (projr (set_index day1), projr (set_index day2_no_capital)) \<and>
   ''AuthorizedCapital'' \<in> set columns_to_check \<and>
   ''AuthorizedCapital'' \<notin> set (icolumns (projr (set_index day2_no_capital))) \<and>
   intersection (index (projr (set_index day1))) (index (projr (set_index day2_no_capital))) \<noteq> [] \<and>
   (find_changes scenario_no_capital ''day1.csv'' ''day2.csv'' ''Day 2'' = Inl KeyError \<or>
    find_changes scenario_no_capital ''day1.csv'' ''day2.csv'' ''Day 2'' = Inl ValueError)"
proof -
  have a: "load_frames scenario_no_name_added ''day1.csv'' ''day2.csv'' =
     Inr (projr (set_index single_K0), projr (set_index day2_no_name))"
    by (simp add: load_frames_def read_csv_def scenario_no_name_added_def set_index_def
        single_K0_def day2_no_name_def header_def)
  have b: "''CompanyName'' \<notin> set (icolumns (projr (set_index day2_no_name)))"
    by (simp add: set_index_def day2_no_name_def)
  have c: "difference (index (projr (set_index day2_no_name)))
             (index (projr (set_index single_K0))) \<noteq> []"
    by (simp add: difference_def index_def set_index_def single_K0_def day2_no_name_def
        header_def)
  from b c have h1: "(''CompanyName'' \<notin> set (icolumns (projr (set_index day2_no_name))) \<and>
        difference (index (projr (set_index day2_no_name)))
          (index (projr (set_index single_K0))) \<noteq> []) \<or>
     ((\<exists>col\<in>set columns_to_check.
          col \<notin> set (icolumns (projr (set_index single_K0))) \<or>
          col \<notin> set (icolumns (projr (set_index day2_no_name)))) \<and>
        intersection (index (projr (set_index single_K0)))
          (index (projr (set_index day2_no_name))) \<noteq> [])"
    by blast
  from missing_column_raises_when_reached [OF a h1, of "''Day 2''"] b c
  have r1: "find_changes scenario_no_name_added ''day1.csv'' ''day2.csv'' ''Day 2'' = Inl KeyError"
    by blast
  have a2: "load_frames scenario_no_capital ''day1.csv'' ''day2.csv'' =
     Inr (projr (set_index day1), projr (set_index day2_no_capital))"
    by (simp add: load_frames_def read_csv_def scenario_no_capital_def set_index_def
        day1_def day2_no_capital_def header_def)
  have b2: "''AuthorizedCapital'' \<in> set columns_to_check"
    by (simp add: columns_to_check_def)
  have c2: "''AuthorizedCapital'' \<notin> set (icolumns (projr (set_index day2_no_capital)))"
    by (simp add: set_index_def day2_no_capital_def)
  have d2: "intersection (index (projr (set_index day1)))
              (index (projr (set_index day2_no_capital))) \<noteq> []"
    by (simp add: intersection_def index_def set_index_def day1_def day2_no_capital_def
        header_def)
  from b2 c2 d2 have h2: "(''CompanyName'' \<notin> set (icolumns (projr (set_index day2_no_capital))) \<and>
        difference (index (projr (set_index day2_no_capital)))
          (index (projr (set_index day1))) \<noteq> []) \<or>
     ((\<exists>col\<in>set columns_to_check.
          col \<notin> set (icolumns (projr (set_index day1))) \<or>
          col \<notin> set (icolumns (projr (set_index day2_no_capital)))) \<and>
        intersection (index (projr (set_index day1)))
          (index (projr (set_index day2_no_capital))) \<noteq> [])"
    by blast
  from missing_column_raises_when_reached [OF a2 h2, of "''Day 2''"]
  have r2: "find_changes scenario_no_capital ''day1.csv'' ''day2.csv'' ''Day 2'' = Inl KeyError \<or>
    find_changes scenario_no_capital ''day1.csv'' ''day2.csv'' ''Day 2'' = Inl ValueError"
    by blast
  from a b c r1 a2 b2 c2 d2 r2 show ?thesis by blast
qed

text \<open>
  The claim as stated fails: the new file has no name column, no key is new, and the run
  succeeds with a Field Update record.
\<close>

theorem missing_name_column_accepted:
  "''CompanyName'' \<notin> set (columns day2_no_name) \<and>
   find_changes scenario_no_name ''day1.csv'' ''day2.csv'' ''Day 2'' =
     Inr [change_dict ''K2'' ''Field Update'' ''CompanyStatus'' (Scalar (Str ''Active''))
            (Scalar (Str ''Strike Off'')) ''Day 2'']"
  by (simp add: find_changes_def load_frames_def read_csv_def set_index_def
        scenario_no_name_def day1_def day2_no_name_def header_def diff_frames_def index_def
        difference_def intersection_def loc_def cell_of_def columns_to_check_def)

text \<open>
  C7, as the code has it. Every record of a change list that \<^verbatim>\<open>find_changes\<close> returns
  has exactly the keys CIN, Change\_Type, Field\_Changed, Old\_Value, New\_Value, Date, in
  this order.
\<close>

theorem record_field_names:
  assumes "find_changes fs old_path new_path log_date = Inr changes" "r \<in> set changes"
  shows "map fst r =
    [''CIN'', ''Change_Type'', ''Field_Changed'', ''Old_Value'', ''New_Value'', ''Date'']"
proof -
  have "\<forall>r\<in>set changes. map fst r =
      [''CIN'', ''Change_Type'', ''Field_Changed'', ''Old_Value'', ''New_Value'', ''Date'']"
    using assms(1) by (rule find_changes_all) (simp add: change_dict_def)
  with assms(2) show ?thesis by blast
qed

theorem record_field_names_witness:
  "find_changes scenario_A ''day1.csv'' ''day2.csv'' ''Day 2'' = Inr log_A \<and>
   hd log_A \<in> set log_A \<and>
   map fst (hd log_A) =
     [''CIN'', ''Change_Type'', ''Field_Changed'', ''Old_Value'', ''New_Value'', ''Date'']"
proof -
  have b: "hd log_A \<in> set log_A"
    by (simp add: log_A_def)
  from record_field_names [OF scenario_A_result b] scenario_A_result b show ?thesis by blast
qed

text \<open>
  The claim as stated fails: the first field of a record is named CIN, not Key.
\<close>

theorem first_field_name_is_CIN:
  "find_changes scenario_A ''day1.csv'' ''day2.csv'' ''Day 2'' = Inr log_A \<and>
   map fst (hd log_A) =
     [''CIN'', ''Change_Type'', ''Field_Changed'', ''Old_Value'', ''New_Value'', ''Date''] \<and>
   map fst (hd log_A) \<noteq>
     [''Key'', ''Change_Type'', ''Field_Changed'', ''Old_Value'', ''New_Value'', ''Date'']"
  by (simp add: find_changes_def load_frames_def read_csv_def set_index_def scenario_A_def
        day1_def day2_def header_def diff_frames_def index_def difference_def intersection_def
        loc_def cell_of_def columns_to_check_def log_A_def change_dict_def)

text \<open>
  C8. Comparing a snapshot with unique keys with itself yields the empty change list, for
  every label.
\<close>

theorem same_snapshot_no_changes:
  assumes "load_frames fs old_path new_path = Inr (df, df)" "distinct (index df)"
    "set columns_to_check \<subseteq> set (icolumns df)"
  shows "find_changes fs old_path new_path log_date = Inr []"
proof -
  have sc: "scalars df df (cin, col)"
    if "cin \<in> set (index df)" "col \<in> set columns_to_check" for cin col
  proof -
    from that assms obtain a where "loc df cin col = Inr (Scalar a)"
      using loc_scalar [of df cin col] by auto
    then show ?thesis by (auto simp: scalars_def)
  qed
  have nd: "\<not> differs df df (cin, col)"
    if "cin \<in> set (index df)" "col \<in> set columns_to_check" for cin col
  proof -
    from that assms obtain a where "loc df cin col = Inr (Scalar a)"
      using loc_scalar [of df cin col] by auto
    then show ?thesis by (simp add: differs_def py_ne_same)
  qed
  have "filter (differs df df) (List.product (index df) columns_to_check) = []"
    using nd by (auto simp: filter_empty_conv)
  moreover have "common_loop df df log_date (index df) [] =
      Inr ([] @ map (update_record df df log_date)
            (filter (differs df df) (List.product (index df) columns_to_check)))"
    using sc by (intro common_loop_ok) auto
  ultimately have "diff_frames df df log_date = Inr []"
    using assms(2) by (simp add: diff_frames_def difference_self intersection_self)
  with assms(1) show ?thesis by (simp add: find_changes_loaded)
qed

theorem same_snapshot_no_changes_witness:
  "load_frames scenario_A ''day1.csv'' ''day1.csv'' =
     Inr (projr (set_index day1), projr (set_index day1)) \<and>
   distinct (index (projr (set_index day1))) \<and>
   set columns_to_check \<subseteq> set (icolumns (projr (set_index day1))) \<and>
   find_changes scenario_A ''day1.csv'' ''day1.csv'' ''Day 1'' = Inr []"
proof -
  have a: "load_frames scenario_A ''day1.csv'' ''day1.csv'' =
     Inr (projr (set_index day1), projr (set_index day1))"
    by (simp add: load_frames_def read_csv_def scenario_A_def set_index_def day1_def header_def)
  have b: "distinct (index (projr (set_index day1)))"
    by (simp add: index_def set_index_def day1_def header_def)
  have c: "set columns_to_check \<subseteq> set (icolumns (projr (set_index day1)))"
    by (simp add: columns_to_check_def set_index_def day1_def header_def)
  from same_snapshot_no_changes [OF a b c] a b c show ?thesis by simp
qed

text \<open>
  C9. The summary counts the records of each change type, and returns 1, 1, 1 on the log
  of scenario A. On the empty log, which a run over two equal snapshots returns, the
  counting raises KeyError and no summary is produced.
\<close>

theorem summary_counts_empty_log:
  "find_changes scenario_A ''day1.csv'' ''day1.csv'' ''Day 1'' = Inr [] \<and>
   summary_counts [] = Inl KeyError \<and>
   summary_counts log_A = Inr (1, 1, 1)"
proof -
  have "find_changes scenario_A ''day1.csv'' ''day1.csv'' ''Day 1'' = Inr []"
    by (simp add: find_changes_def load_frames_def read_csv_def set_index_def scenario_A_def
        day1_def header_def diff_frames_def index_def difference_def intersection_def
        loc_def cell_of_def columns_to_check_def)
  moreover have "summary_counts [] = Inl KeyError"
    by (simp add: summary_counts_def count_type_def frame_column_def)
  moreover have "summary_counts log_A = Inr (1, 1, 1)"
    by (simp add: summary_counts_def count_type_def frame_column_def log_A_def change_dict_def)
  ultimately show ?thesis by blast
qed

text \<open>
  C10, as the code has it. When the old file does not exist or has no CIN column, or the
  old file is a table with a CIN column and the new file does not exist or has no CIN
  column, \<^verbatim>\<open>find_changes\<close> raises nothing and returns the empty list: the value a run
  that found no change returns.
\<close>

theorem missing_file_or_cin_returns_empty:
  assumes "fs old_path = None \<or>
           (\<exists>f. fs old_path = Some (Table f) \<and> ''CIN'' \<notin> set (columns f)) \<or>
           (\<exists>f. fs old_path = Some (Table f) \<and> ''CIN'' \<in> set (columns f) \<and>
                (fs new_path = None \<or>
                 (\<exists>g. fs new_path = Some (Table g) \<and> ''CIN'' \<notin> set (columns g))))"
  shows "find_changes fs old_path new_path log_date = Inr []"
  using assms
  by (auto simp: find_changes_def load_frames_def read_csv_def set_index_def)

theorem missing_file_or_cin_returns_empty_witness:
  "scenario_A ''day0.csv'' = None \<and>
   find_changes scenario_A ''day0.csv'' ''day1.csv'' ''Day 1'' = Inr [] \<and>
   scenario_A ''day2.csv'' = Some (Table day2) \<and> ''CIN'' \<in> set (columns day2) \<and>
   scenario_A ''day3.csv'' = None \<and>
   find_changes scenario_A ''day2.csv'' ''day3.csv'' ''Day 3'' = Inr [] \<and>
   scenario_no_cin ''day1.csv'' = Some (Table day1) \<and> ''CIN'' \<in> set (columns day1) \<and>
   scenario_no_cin ''day2.csv'' = Some (Table no_cin) \<and> ''CIN'' \<notin> set (columns no_cin) \<and>
   find_changes scenario_no_cin ''day1.csv'' ''day2.csv'' ''Day 2'' = Inr [] \<and>
   find_changes scenario_no_cin ''day2.csv'' ''day1.csv'' ''Day 2'' = Inr []"
proof -
  have a0: "scenario_A ''day0.csv'' = None" and a3: "scenario_A ''day3.csv'' = None"
    and a2: "scenario_A ''day2.csv'' = Some (Table day2)"
    by (simp_all add: scenario_A_def)
  have c2: "''CIN'' \<in> set (columns day2)" and c1: "''CIN'' \<in> set (columns day1)"
    by (simp_all add: day1_def day2_def header_def)
  have b1: "scenario_no_cin ''day1.csv'' = Some (Table day1)"
    and b2: "scenario_no_cin ''day2.csv'' = Some (Table no_cin)"
    by (simp_all add: scenario_no_cin_def)
  have c: "''CIN'' \<notin> set (columns no_cin)"
    by (simp add: no_cin_def)
  from a0 have r1: "find_changes scenario_A ''day0.csv'' ''day1.csv'' ''Day 1'' = Inr []"
    by (intro missing_file_or_cin_returns_empty) simp
  from a2 c2 a3 have r2: "find_changes scenario_A ''day2.csv'' ''day3.csv'' ''Day 3'' = Inr []"
    by (intro missing_file_or_cin_returns_empty) simp
  from b1 c1 b2 c have r3: "find_changes scenario_no_cin ''day1.csv'' ''day2.csv'' ''Day 2'' = Inr []"
    by (intro missing_file_or_cin_returns_empty) simp
  from b2 c have r4: "find_changes scenario_no_cin ''day2.csv'' ''day1.csv'' ''Day 2'' = Inr []"
    by (intro missing_file_or_cin_returns_empty) simp
  from a0 a2 a3 c1 c2 b1 b2 c r1 r2 r3 r4 show ?thesis by simp
qed

text \<open>
  The claim as stated fails: the new file does not exist, the old file exists and is
  empty, and the EmptyDataError of line 72 reaches the caller, since the handlers of lines
  74 and 78 catch FileNotFoundError and KeyError only.
\<close>

theorem unparsed_old_file_raises:
  "scenario_unparsed ''day2.csv'' = None \<and>
   find_changes scenario_unparsed ''day1.csv'' ''day2.csv'' ''Day 2'' = Inl EmptyDataError"
  by (simp add: scenario_unparsed_def find_changes_def load_frames_def read_csv_def)

end
